theory Spec2Isabelle
  imports Complex_Main "HOL-Library.Word" "HOL-Library.AList"
begin

unbundle bit_operations_syntax

section \<open>Library functions used by the tracker\<close>

subsection \<open>SHA-256, HMAC and base64\<close>

text \<open>
  \<^verbatim>\<open>hmac.new(key, msg, digestmod=hashlib.sha256).digest()\<close> and
  \<^verbatim>\<open>base64.b64encode\<close> are standard-library calls. They are written out here
  after FIPS 180-4 (SHA-256), RFC 2104 (HMAC) and RFC 4648 (base64), on bytes and 32-bit
  words, so that \<open>generate_signature\<close> is the function the program computes.
\<close>

type_synonym byte = "8 word"
type_synonym w32 = "32 word"

text \<open>
  The round constants are the first 32 bits of the fractional parts of the cube roots of
  the first 64 primes, the initial hash value those of the square roots of the first 8
  primes. \<open>iroot_bits e k n r\<close> finds the integer \<open>e\<close>-th root of \<open>n\<close> bit by bit.
\<close>

definition is_prime :: "int \<Rightarrow> bool" where
  "is_prime n = (1 < n \<and> list_all (\<lambda>d. n mod d \<noteq> 0) [2..n - 1])"

fun iroot_bits :: "nat \<Rightarrow> nat \<Rightarrow> int \<Rightarrow> int \<Rightarrow> int" where
  "iroot_bits e 0 n r = r"
| "iroot_bits e (Suc k) n r =
     (if (r + 2 ^ k) ^ e \<le> n then iroot_bits e k n (r + 2 ^ k) else iroot_bits e k n r)"

definition frac_root32 :: "nat \<Rightarrow> int \<Rightarrow> w32" where
  "frac_root32 e p = word_of_int (iroot_bits e 40 (p * 2 ^ (32 * e)) 0)"

definition K256 :: "w32 list" where
  "K256 = map (frac_root32 3) (filter is_prime [2..311])"

definition H256 :: "w32 list" where
  "H256 = map (frac_root32 2) (filter is_prime [2..19])"

definition rotr :: "nat \<Rightarrow> w32 \<Rightarrow> w32" where
  "rotr n x = (drop_bit n x) OR (push_bit (32 - n) x)"

definition Ch :: "w32 \<Rightarrow> w32 \<Rightarrow> w32 \<Rightarrow> w32" where
  "Ch x y z = (x AND y) XOR (NOT x AND z)"

definition Maj :: "w32 \<Rightarrow> w32 \<Rightarrow> w32 \<Rightarrow> w32" where
  "Maj x y z = (x AND y) XOR (x AND z) XOR (y AND z)"

definition bsig0 :: "w32 \<Rightarrow> w32" where
  "bsig0 x = rotr 2 x XOR rotr 13 x XOR rotr 22 x"

definition bsig1 :: "w32 \<Rightarrow> w32" where
  "bsig1 x = rotr 6 x XOR rotr 11 x XOR rotr 25 x"

definition ssig0 :: "w32 \<Rightarrow> w32" where
  "ssig0 x = rotr 7 x XOR rotr 18 x XOR drop_bit 3 x"

definition ssig1 :: "w32 \<Rightarrow> w32" where
  "ssig1 x = rotr 17 x XOR rotr 19 x XOR drop_bit 10 x"

definition be32 :: "byte list \<Rightarrow> w32" where
  "be32 bs = foldl (\<lambda>acc b. push_bit 8 acc OR ucast b) 0 bs"

definition be_bytes :: "nat \<Rightarrow> 'a::len word \<Rightarrow> byte list" where
  "be_bytes n w = map (\<lambda>i. ucast (drop_bit (8 * (n - 1 - i)) w)) [0..<n]"

definition sha256_pad :: "byte list \<Rightarrow> byte list" where
  "sha256_pad msg =
     msg @ [0x80] @ replicate ((119 - length msg mod 64) mod 64) 0 @ be_bytes 8 (of_nat (8 * length msg) :: 64 word)"

fun chunks :: "nat \<Rightarrow> 'a list \<Rightarrow> 'a list list" where
  "chunks 0 xs = []"
| "chunks (Suc n) [] = []"
| "chunks (Suc n) (x # xs) = take (Suc n) (x # xs) # chunks (Suc n) (drop n xs)"

fun schedule :: "nat \<Rightarrow> w32 list \<Rightarrow> w32 list" where
  "schedule 0 ws = ws"
| "schedule (Suc n) ws =
     (let t = length ws
      in schedule n (ws @ [ssig1 (ws ! (t - 2)) + ws ! (t - 7) + ssig0 (ws ! (t - 15)) + ws ! (t - 16)]))"

definition round256 :: "w32 list \<Rightarrow> (w32 \<times> w32) \<Rightarrow> w32 list" where
  "round256 st kw =
     (case st of [a, b, c, d, e, f, g, h] \<Rightarrow>
        (let t1 = h + bsig1 e + Ch e f g + fst kw + snd kw;
             t2 = bsig0 a + Maj a b c
         in [t1 + t2, a, b, c, d + t1, e, f, g])
      | _ \<Rightarrow> st)"

definition compress :: "w32 list \<Rightarrow> byte list \<Rightarrow> w32 list" where
  "compress hs block =
     (let ws = schedule 48 (map be32 (chunks 4 block))
      in map2 (+) hs (foldl round256 hs (zip K256 ws)))"

definition sha256 :: "byte list \<Rightarrow> byte list" where
  "sha256 msg = concat (map (be_bytes 4) (foldl compress H256 (chunks 64 (sha256_pad msg))))"

definition hmac_sha256 :: "byte list \<Rightarrow> byte list \<Rightarrow> byte list" where
  "hmac_sha256 key msg =
     (let k0 = (if length key > 64 then sha256 key else key);
          k = k0 @ replicate (64 - length k0) 0
      in sha256 (map (\<lambda>b. b XOR 0x5c) k @ sha256 (map (\<lambda>b. b XOR 0x36) k @ msg)))"

definition b64_alphabet :: string where
  "b64_alphabet = ''ABCDEFGHIJKLMNOPQRSTUVWXYZabcdefghijklmnopqrstuvwxyz0123456789+/''"

definition b64_char :: "24 word \<Rightarrow> char" where
  "b64_char n = b64_alphabet ! unat (n AND 63)"

definition b64_group :: "byte \<Rightarrow> byte \<Rightarrow> byte \<Rightarrow> 24 word" where
  "b64_group a b c = push_bit 16 (ucast a) OR push_bit 8 (ucast b) OR ucast c"

fun b64encode :: "byte list \<Rightarrow> string" where
  "b64encode [] = []"
| "b64encode [a] =
     (let n = b64_group a 0 0
      in [b64_char (drop_bit 18 n), b64_char (drop_bit 12 n), CHR ''='', CHR ''=''])"
| "b64encode [a, b] =
     (let n = b64_group a b 0
      in [b64_char (drop_bit 18 n), b64_char (drop_bit 12 n), b64_char (drop_bit 6 n), CHR ''=''])"
| "b64encode (a # b # c # rest) =
     (let n = b64_group a b c
      in [b64_char (drop_bit 18 n), b64_char (drop_bit 12 n), b64_char (drop_bit 6 n), b64_char n]
         @ b64encode rest)"

text \<open>
  A Python \<^verbatim>\<open>str\<close> is modelled by the \<^typ>\<open>string\<close> of its UTF-8 bytes, so
  \<^verbatim>\<open>bytes(s, encoding='utf-8')\<close> reads the characters off as bytes and string
  concatenation commutes with encoding.
\<close>

definition utf8 :: "string \<Rightarrow> byte list" where
  "utf8 s = map of_char s"

subsection \<open>Dictionaries, errors and numbers\<close>

text \<open>
  A Python \<^verbatim>\<open>dict\<close> is an association list in insertion order with distinct keys:
  \<^verbatim>\<open>d[k] = v\<close> is \<^const>\<open>AList.update\<close> (overwrite in place, or append),
  \<^verbatim>\<open>d.get(k, default)\<close> is \<open>dict_get\<close>, \<^verbatim>\<open>d.items()\<close> is the list itself.
\<close>

type_synonym ('k, 'v) dict = "('k \<times> 'v) list"

definition dict_get :: "('k, 'v) dict \<Rightarrow> 'k \<Rightarrow> 'v \<Rightarrow> 'v" where
  "dict_get d k dflt = (case map_of d k of None \<Rightarrow> dflt | Some v \<Rightarrow> v)"

definition dict_ok :: "('k, 'v) dict \<Rightarrow> bool" where
  "dict_ok d = distinct (map fst d)"

text \<open>
  The exceptions that can leave \<open>calculate_daily_profit\<close>. \<open>Unmodelled\<close> marks an
  input on which the model gives no answer (see \<open>py_float\<close>).
\<close>

datatype error = KeyError | ValueError | Unmodelled

text \<open>
  Python's \<^verbatim>\<open>float\<close> values are modelled by exact rationals: rounding to binary64,
  infinities and NaN are not part of the model. \<open>py_float\<close> is \<^verbatim>\<open>float(s)\<close> on a
  string: on a string over the characters \<^verbatim>\<open>0-9 + - .\<close> it is the value of the
  decimal literal (optional sign, digits, optional point, digits, at least one digit) or
  \<^verbatim>\<open>ValueError\<close>; a string with any other character (blanks, exponents, underscores,
  \<^verbatim>\<open>inf\<close>, \<^verbatim>\<open>nan\<close>) is outside the model.
\<close>

definition digit_of :: "char \<Rightarrow> int option" where
  "digit_of c = (let n = (of_char c :: int) in if 48 \<le> n \<and> n \<le> 57 then Some (n - 48) else None)"

fun digits_val :: "int \<Rightarrow> string \<Rightarrow> int option" where
  "digits_val acc [] = Some acc"
| "digits_val acc (c # cs) =
     (case digit_of c of None \<Rightarrow> None | Some d \<Rightarrow> digits_val (10 * acc + d) cs)"

definition plain_char :: "char \<Rightarrow> bool" where
  "plain_char c = (digit_of c \<noteq> None \<or> c = CHR ''+'' \<or> c = CHR ''-'' \<or> c = CHR ''.'')"

definition py_float :: "string \<Rightarrow> error + rat" where
  "py_float s =
     (if \<not> list_all plain_char s then Inl Unmodelled
      else
        let (neg, body) = (case s of [] \<Rightarrow> (False, [])
                           | c # r \<Rightarrow> if c = CHR ''-'' then (True, r)
                                      else if c = CHR ''+'' then (False, r) else (False, s));
            ip = takeWhile (\<lambda>c. c \<noteq> CHR ''.'') body;
            fp = drop 1 (dropWhile (\<lambda>c. c \<noteq> CHR ''.'') body)
        in if ip @ fp = [] then Inl ValueError
           else (case digits_val 0 (ip @ fp) of
                   None \<Rightarrow> Inl ValueError
                 | Some n \<Rightarrow> Inr ((if neg then - 1 else 1) * of_int n / 10 ^ length fp)))"

fun join :: "string \<Rightarrow> string list \<Rightarrow> string" where
  "join sep [] = []"
| "join sep [x] = x"
| "join sep (x # y # ys) = x @ sep @ join sep (y # ys)"

fun startswith :: "string \<Rightarrow> string \<Rightarrow> bool" where
  "startswith s [] = True"
| "startswith [] (p # ps) = False"
| "startswith (c # cs) (p # ps) = (c = p \<and> startswith cs ps)"

section \<open>Data model\<close>

record bot_info =
  symbol :: string
  strategy :: string

text \<open>One trade fill of the exchange; only its \<^verbatim>\<open>pnl\<close> member is read.\<close>

record fill =
  pnl :: "string option"

record bot_daily_stat =
  symbol :: string
  profit_usdt :: rat
  profit_percentage :: rat
  trades_count :: int

type_synonym daily_record = "(string, bot_daily_stat) dict"

record monthly_aggregate =
  total_profit :: rat
  total_trades :: int
  active_days :: int
  avg_percentage :: rat

text \<open>
  The decoded response body is the exchange's envelope, a JSON object whose members
  \<^verbatim>\<open>code\<close> and \<^verbatim>\<open>data\<close> may each be absent.
\<close>

record envelope =
  code :: "string option"
  data :: "fill list option"

datatype json_outcome = JsonError | JsonValue envelope

datatype http_outcome = Timeout | Fault | Response int json_outcome

record http_request =
  http_method :: string
  url :: string
  headers :: "(string, string) dict"

text \<open>
  What one call meets outside the process: the clock readings it takes
  (\<^verbatim>\<open>datetime.utcnow().isoformat()\<close> and the two window bounds as millisecond strings)
  and the answer of the network to the request it sends.
\<close>

record io =
  utc_iso :: string
  after_ms :: string
  before_ms :: string
  transport :: "http_request \<Rightarrow> http_outcome"

record tracker =
  api_key :: string
  secret_key :: string
  passphrase :: string
  base_url :: string
  daily_data :: "(string, daily_record) dict"
  trading_bots :: "(string, bot_info) dict"

definition init_tracker :: "string \<Rightarrow> string \<Rightarrow> string \<Rightarrow> tracker" where
  "init_tracker k s p =
     \<lparr>api_key = k, secret_key = s, passphrase = p, base_url = ''https://www.okx.com'',
      daily_data = [],
      trading_bots =
        [(''Bot-DCA-BTC'', \<lparr>bot_info.symbol = ''BTC-USDT'', strategy = ''DCA''\<rparr>),
         (''Bot-Grid-ETH'', \<lparr>bot_info.symbol = ''ETH-USDT'', strategy = ''Grid''\<rparr>),
         (''Bot-Martingale-BNB'', \<lparr>bot_info.symbol = ''BNB-USDT'', strategy = ''Martingale''\<rparr>)]\<rparr>"

section \<open>Operations of \<open>OKXTracker\<close>\<close>

definition message :: "string \<Rightarrow> string \<Rightarrow> string \<Rightarrow> string \<Rightarrow> string" where
  "message timestamp meth request_path body = timestamp @ meth @ request_path @ body"

definition generate_signature ::
  "tracker \<Rightarrow> string \<Rightarrow> string \<Rightarrow> string \<Rightarrow> string \<Rightarrow> string" where
  "generate_signature t timestamp meth request_path body =
     b64encode (hmac_sha256 (utf8 (secret_key t)) (utf8 (message timestamp meth request_path body)))"

definition query_string :: "(string, string) dict \<Rightarrow> string" where
  "query_string params = join ''&'' (map (\<lambda>(k, v). k @ ''='' @ v) params)"

definition request_path_of :: "string \<Rightarrow> string \<Rightarrow> (string, string) dict option \<Rightarrow> string" where
  "request_path_of meth endpoint params =
     (case params of
        None \<Rightarrow> endpoint
      | Some ps \<Rightarrow> if ps \<noteq> [] \<and> meth = ''GET'' then endpoint @ ''?'' @ query_string ps else endpoint)"

text \<open>
  \<open>make_okx_request\<close> returns the value handed to the caller (\<open>None\<close> is Python's
  \<^verbatim>\<open>None\<close>) and the requests it dispatched, in order. Every exception raised inside the
  \<^verbatim>\<open>try\<close> block is caught, so there is no error result.
\<close>

definition make_okx_request ::
  "tracker \<Rightarrow> io \<Rightarrow> string \<Rightarrow> string \<Rightarrow> (string, string) dict option
     \<Rightarrow> envelope option \<times> http_request list" where
  "make_okx_request t w meth endpoint params =
     (let timestamp = take (length (utc_iso w) - 3) (utc_iso w) @ ''Z'';
          request_path = request_path_of meth endpoint params;
          signature = generate_signature t timestamp meth request_path [];
          hdrs = [(''OK-ACCESS-KEY'', api_key t),
                  (''OK-ACCESS-SIGN'', signature),
                  (''OK-ACCESS-TIMESTAMP'', timestamp),
                  (''OK-ACCESS-PASSPHRASE'', passphrase t),
                  (''Content-Type'', ''application/json'')];
          req = \<lparr>http_method = meth, url = base_url t @ request_path, headers = hdrs\<rparr>
      in (case transport w req of
            Response status body \<Rightarrow>
              if status = 200
              then (case body of JsonValue e \<Rightarrow> Some e | JsonError \<Rightarrow> None)
              else None
          | Timeout \<Rightarrow> None
          | Fault \<Rightarrow> None,
          [req]))"

definition get_trading_history :: "tracker \<Rightarrow> io \<Rightarrow> string \<Rightarrow> error + fill list" where
  "get_trading_history t w inst =
     (let params = [(''instId'', inst), (''after'', after_ms w), (''before'', before_ms w)];
          response = fst (make_okx_request t w ''GET'' ''/api/v5/trade/fills-history'' (Some params))
      in (case response of
            None \<Rightarrow> Inr []
          | Some e \<Rightarrow>
              if code e = Some ''0''
              then (case data e of None \<Rightarrow> Inl KeyError | Some fills \<Rightarrow> Inr fills)
              else Inr []))"

definition trade_pnl :: "fill \<Rightarrow> error + rat" where
  "trade_pnl trade = (case pnl trade of None \<Rightarrow> Inr 0 | Some s \<Rightarrow> py_float s)"

fun sum_pnl :: "rat \<Rightarrow> fill list \<Rightarrow> error + rat" where
  "sum_pnl acc [] = Inr acc"
| "sum_pnl acc (trade # trades) =
     (case trade_pnl trade of Inl e \<Rightarrow> Inl e | Inr v \<Rightarrow> sum_pnl (acc + v) trades)"

text \<open>
  The loop over \<^verbatim>\<open>self.trading_bots.items()\<close>. Each bot's call has its own
  surroundings \<open>ws bot_name\<close>; the state of the loop is \<^verbatim>\<open>total_profit\<close> (here \<open>running_total\<close>) and
  \<^verbatim>\<open>bot_profits\<close>.
\<close>

fun bot_loop ::
  "tracker \<Rightarrow> (string \<Rightarrow> io) \<Rightarrow> (string, bot_info) dict \<Rightarrow> rat \<times> daily_record
     \<Rightarrow> error + rat \<times> daily_record" where
  "bot_loop t ws [] st = Inr st"
| "bot_loop t ws ((bot_name, info) # bots) (running_total, bot_profits) =
     (case get_trading_history t (ws bot_name) (bot_info.symbol info) of
        Inl e \<Rightarrow> Inl e
      | Inr trades \<Rightarrow>
          if trades \<noteq> [] then
            (case sum_pnl 0 trades of
               Inl e \<Rightarrow> Inl e
             | Inr profit \<Rightarrow>
                 let count = int (length trades);
                     percentage = (if profit \<noteq> 0 then (profit / 1000) * 100 else 0);
                     stat = \<lparr>symbol = bot_info.symbol info, profit_usdt = profit,
                             profit_percentage = percentage, trades_count = count\<rparr>
                 in bot_loop t ws bots (running_total + profit, AList.update bot_name stat bot_profits))
          else bot_loop t ws bots (running_total, bot_profits))"

text \<open>
  \<open>calculate_daily_profit t today ws\<close>: \<open>today\<close> is the clock's
  \<^verbatim>\<open>strftime('%Y-%m-%d')\<close>. An exception leaves before the store is written, so the
  error result carries no new state.
\<close>

definition calculate_daily_profit ::
  "tracker \<Rightarrow> string \<Rightarrow> (string \<Rightarrow> io) \<Rightarrow> error + tracker \<times> daily_record" where
  "calculate_daily_profit t today ws =
     (case bot_loop t ws (trading_bots t) (0, []) of
        Inl e \<Rightarrow> Inl e
      | Inr (running_total, bot_profits) \<Rightarrow>
          Inr (t\<lparr>daily_data := AList.update today bot_profits (daily_data t)\<rparr>, bot_profits))"

text \<open>
  \<open>get_daily_summary t today date\<close>: \<open>date = None\<close> is the omitted argument;
  \<^verbatim>\<open>not date\<close> holds for \<^verbatim>\<open>None\<close> and for the empty string.
\<close>

definition get_daily_summary :: "tracker \<Rightarrow> string \<Rightarrow> string option \<Rightarrow> daily_record" where
  "get_daily_summary t today date =
     (let d = (case date of None \<Rightarrow> today | Some s \<Rightarrow> if s = [] then today else s)
      in dict_get (daily_data t) d [])"

definition zero_aggregate :: monthly_aggregate where
  "zero_aggregate = \<lparr>total_profit = 0, total_trades = 0, active_days = 0, avg_percentage = 0\<rparr>"

definition add_day :: "monthly_aggregate \<Rightarrow> bot_daily_stat \<Rightarrow> monthly_aggregate" where
  "add_day m bot_data =
     (let m1 = m\<lparr>total_profit := total_profit m + profit_usdt bot_data\<rparr>;
          m2 = m1\<lparr>total_trades := total_trades m1 + trades_count bot_data\<rparr>;
          m3 = m2\<lparr>active_days := active_days m2 + 1\<rparr>
      in m3\<lparr>avg_percentage :=
               (if active_days m3 > 0 then total_profit m3 / of_int (active_days m3) else 0)\<rparr>)"

fun record_loop ::
  "daily_record \<Rightarrow> (string, monthly_aggregate) dict \<Rightarrow> (string, monthly_aggregate) dict" where
  "record_loop [] monthly_summary = monthly_summary"
| "record_loop ((bot_name, bot_data) # rest) monthly_summary =
     (let ms = (if map_of monthly_summary bot_name = None
                then AList.update bot_name zero_aggregate monthly_summary
                else monthly_summary)
      in record_loop rest
           (AList.update bot_name (add_day (dict_get ms bot_name zero_aggregate) bot_data) ms))"

fun date_loop ::
  "string \<Rightarrow> (string, daily_record) dict \<Rightarrow> (string, monthly_aggregate) dict
     \<Rightarrow> (string, monthly_aggregate) dict" where
  "date_loop current_month [] monthly_summary = monthly_summary"
| "date_loop current_month ((date, rec) # rest) monthly_summary =
     (if startswith date current_month
      then date_loop current_month rest (record_loop rec monthly_summary)
      else date_loop current_month rest monthly_summary)"

definition get_monthly_summary :: "tracker \<Rightarrow> string \<Rightarrow> (string, monthly_aggregate) dict" where
  "get_monthly_summary t current_month = date_loop current_month (daily_data t) []"

text \<open>
  A failed pass raises into the caller and leaves the tracker as it was; the next pass
  starts from there. \<open>run_passes\<close> runs a sequence of passes, each with the date the
  clock shows and the surroundings its calls meet.
\<close>

fun run_passes :: "tracker \<Rightarrow> (string \<times> (string \<Rightarrow> io)) list \<Rightarrow> tracker" where
  "run_passes t [] = t"
| "run_passes t ((today, ws) # rest) =
     (case calculate_daily_profit t today ws of
        Inl e \<Rightarrow> run_passes t rest
      | Inr (t', r) \<Rightarrow> run_passes t' rest)"

section \<open>Notions of the specification\<close>

text \<open>
  The statistic the pass writes for a bot whose fills sum to \<open>profit\<close>, with the
  percentage written as the plain formula.
\<close>

definition stat_of :: "bot_info \<Rightarrow> rat \<Rightarrow> nat \<Rightarrow> bot_daily_stat" where
  "stat_of info profit n =
     \<lparr>symbol = bot_info.symbol info, profit_usdt = profit,
      profit_percentage = (profit / 1000) * 100, trades_count = int n\<rparr>"

text \<open>
  The statistics of one bot in the stored records whose date key begins with the month
  prefix, in the order of the store; and the aggregate the specification assigns to such
  a list (none for the empty list).
\<close>

definition month_stats :: "tracker \<Rightarrow> string \<Rightarrow> string \<Rightarrow> bot_daily_stat list" where
  "month_stats t current_month bot_name =
     List.map_filter
       (\<lambda>(date, rec). if startswith date current_month then map_of rec bot_name else None)
       (daily_data t)"

definition aggregate_of :: "bot_daily_stat list \<Rightarrow> monthly_aggregate option" where
  "aggregate_of qs =
     (if qs = [] then None
      else Some \<lparr>total_profit = sum_list (map profit_usdt qs),
                 total_trades = sum_list (map trades_count qs),
                 active_days = int (length qs),
                 avg_percentage = sum_list (map profit_usdt qs) / of_int (int (length qs))\<rparr>)"

text \<open>The store and each of its records are dictionaries: no key occurs twice.\<close>

definition store_ok :: "tracker \<Rightarrow> bool" where
  "store_ok t = (dict_ok (daily_data t) \<and> (\<forall>(date, rec) \<in> set (daily_data t). dict_ok rec))"

definition counts_ok :: "tracker \<Rightarrow> bool" where
  "counts_ok t =
     (\<forall>(date, rec) \<in> set (daily_data t). \<forall>(n, st) \<in> set rec. 1 \<le> trades_count st)"

section \<open>Concrete inputs\<close>

definition io_replying :: "envelope \<Rightarrow> io" where
  "io_replying e =
     \<lparr>utc_iso = ''2024-01-15T10:20:30.123456'', after_ms = ''1705227630123'',
      before_ms = ''1705314030123'', transport = (\<lambda>_. Response 200 (JsonValue e))\<rparr>"

definition io_timeout :: io where
  "io_timeout =
     \<lparr>utc_iso = ''2024-01-15T10:20:30.123456'', after_ms = ''1705227630123'',
      before_ms = ''1705314030123'', transport = (\<lambda>_. Timeout)\<rparr>"

definition fills_env :: "fill list \<Rightarrow> envelope" where
  "fills_env fs = \<lparr>code = Some ''0'', data = Some fs\<rparr>"

definition example_tracker :: tracker where
  "example_tracker = init_tracker ''key'' ''secret'' ''pass''"

definition fills_a :: "fill list" where
  "fills_a = [\<lparr>pnl = Some ''10.5''\<rparr>, \<lparr>pnl = Some ''-2.0''\<rparr>]"

definition ws_scenario_a :: "string \<Rightarrow> io" where
  "ws_scenario_a bot_name =
     (if bot_name = ''Bot-DCA-BTC'' then io_replying (fills_env fills_a) else io_timeout)"

definition ws_all_timeout :: "string \<Rightarrow> io" where
  "ws_all_timeout bot_name = io_timeout"

definition stat_a :: bot_daily_stat where
  "stat_a =
     \<lparr>symbol = ''BTC-USDT'', profit_usdt = 17 / 2, profit_percentage = 17 / 20, trades_count = 2\<rparr>"

definition stat_prior :: bot_daily_stat where
  "stat_prior =
     \<lparr>symbol = ''BTC-USDT'', profit_usdt = 100, profit_percentage = 10, trades_count = 5\<rparr>"

definition store_prior :: "(string, daily_record) dict" where
  "store_prior = [(''2024-01-15'', [(''Bot-DCA-BTC'', stat_prior)])]"

definition tracker_prior :: tracker where
  "tracker_prior = example_tracker\<lparr>daily_data := store_prior\<rparr>"

definition aggregate_a :: monthly_aggregate where
  "aggregate_a =
     \<lparr>total_profit = 17 / 2, total_trades = 2, active_days = 1, avg_percentage = 17 / 2\<rparr>"

definition fills_params :: "(string, string) dict" where
  "fills_params =
     [(''instId'', ''BTC-USDT''), (''after'', ''1705227630123''), (''before'', ''1705314030123'')]"

section \<open>The exchange client\<close>

lemma get_trading_history_replying:
  "get_trading_history t (io_replying e) inst =
     (if code e = Some ''0''
      then (case data e of None \<Rightarrow> Inl KeyError | Some fs \<Rightarrow> Inr fs) else Inr [])"
  by (simp add: get_trading_history_def make_okx_request_def Let_def io_replying_def)

lemma get_trading_history_timeout:
  "get_trading_history t io_timeout inst = Inr []"
  by (simp add: get_trading_history_def make_okx_request_def Let_def io_timeout_def)

text \<open>
  C6. A call to \<open>make_okx_request\<close> dispatches exactly one request. On a timeout, on a
  transport fault and on every status other than 200 (so on every non-2xx status) it
  returns \<open>None\<close>; it has no error result, so nothing is raised into the caller; and
  when it returns a body, the answer had status 200 and that body.
\<close>

theorem make_okx_request_absent:
  "\<exists>req. snd (make_okx_request t w meth endpoint params) = [req] \<and>
     (transport w req = Timeout \<longrightarrow> fst (make_okx_request t w meth endpoint params) = None) \<and>
     (transport w req = Fault \<longrightarrow> fst (make_okx_request t w meth endpoint params) = None) \<and>
     (\<forall>status body. transport w req = Response status body \<and> status \<noteq> 200 \<longrightarrow>
        fst (make_okx_request t w meth endpoint params) = None) \<and>
     (\<forall>e. fst (make_okx_request t w meth endpoint params) = Some e \<longrightarrow>
        transport w req = Response 200 (JsonValue e))"
  by (auto simp add: make_okx_request_def Let_def
      split: http_outcome.splits json_outcome.splits if_splits)

theorem make_okx_request_absent_witness:
  "fst (make_okx_request example_tracker io_timeout ''GET'' ''/api/v5/account/balance'' None) = None \<and>
   length (snd (make_okx_request example_tracker io_timeout ''GET'' ''/api/v5/account/balance'' None)) = 1"
proof -
  obtain req where
    r: "snd (make_okx_request example_tracker io_timeout ''GET'' ''/api/v5/account/balance'' None) = [req]"
    and tmo: "transport io_timeout req = Timeout \<longrightarrow>
      fst (make_okx_request example_tracker io_timeout ''GET'' ''/api/v5/account/balance'' None) = None"
    using make_okx_request_absent
      [of example_tracker io_timeout "''GET''" "''/api/v5/account/balance''" None]
    by blast
  have "transport io_timeout req = Timeout"
    by (simp add: io_timeout_def)
  with r tmo show ?thesis by simp
qed

text \<open>
  C8. For a GET request with a non-empty parameter dictionary, the one request
  dispatched has the URL \<open>base_url\<close> followed by the endpoint, a question mark and the
  parameters as \<open>key=value\<close> joined by \<open>&\<close> in the dictionary's order; and its signature
  header is \<open>generate_signature\<close> of the timestamp header, the method and that same path.
\<close>

theorem signed_path_is_dispatched_path:
  assumes "ps \<noteq> []"
  shows "\<exists>req ts. snd (make_okx_request t w ''GET'' endpoint (Some ps)) = [req] \<and>
           url req = base_url t @ endpoint @ ''?'' @ join ''&'' (map (\<lambda>(k, v). k @ ''='' @ v) ps) \<and>
           map_of (headers req) ''OK-ACCESS-TIMESTAMP'' = Some ts \<and>
           map_of (headers req) ''OK-ACCESS-SIGN'' =
             Some (generate_signature t ts ''GET''
                     (endpoint @ ''?'' @ join ''&'' (map (\<lambda>(k, v). k @ ''='' @ v) ps)) [])"
  using assms
  by (simp add: make_okx_request_def Let_def request_path_of_def query_string_def)

theorem signed_path_is_dispatched_path_witness:
  "fills_params \<noteq> [] \<and>
   (\<exists>req ts. snd (make_okx_request example_tracker io_timeout ''GET''
                    ''/api/v5/trade/fills-history'' (Some fills_params)) = [req] \<and>
      url req = ''https://www.okx.com/api/v5/trade/fills-history?instId=BTC-USDT&after=1705227630123&before=1705314030123'' \<and>
      map_of (headers req) ''OK-ACCESS-TIMESTAMP'' = Some ts \<and>
      map_of (headers req) ''OK-ACCESS-SIGN'' =
        Some (generate_signature example_tracker ts ''GET''
                ''/api/v5/trade/fills-history?instId=BTC-USDT&after=1705227630123&before=1705314030123'' []))"
proof -
  have h: "fills_params \<noteq> []"
    by (simp add: fills_params_def)
  show ?thesis
    using h signed_path_is_dispatched_path
      [OF h, of example_tracker io_timeout "''/api/v5/trade/fills-history''"]
    by (simp add: fills_params_def example_tracker_def init_tracker_def)
qed

section \<open>The request signer\<close>

lemma length_round256: "length (round256 st kw) = length st"
  by (auto simp add: round256_def Let_def split: list.splits)

lemma length_foldl_round256: "length (foldl round256 st kws) = length st"
  by (induction kws arbitrary: st) (simp_all add: length_round256)

lemma length_compress: "length (compress hs block) = length hs"
  by (simp add: compress_def Let_def length_foldl_round256)

lemma length_foldl_compress: "length (foldl compress hs blocks) = length hs"
  by (induction blocks arbitrary: hs) (simp_all add: length_compress)

lemma length_concat_be_bytes: "length (concat (map (be_bytes n) ws)) = n * length ws"
  by (induction ws) (simp_all add: be_bytes_def)

lemma length_H256: "length H256 = 8"
  by (simp add: H256_def is_prime_def upto.simps)

lemma length_sha256: "length (sha256 msg) = 32"
  by (simp add: sha256_def length_concat_be_bytes length_foldl_compress length_H256)

lemma length_hmac_sha256: "length (hmac_sha256 key msg) = 32"
  by (simp add: hmac_sha256_def Let_def length_sha256)

text \<open>
  A digest has 32 bytes, so for a fixed key only finitely many signatures exist: over
  strings of any length the signature is not injective in the timestamp. Whether two
  well-formed requests can get the same signature is the collision resistance of
  HMAC-SHA256, which is not settled here.
\<close>

lemma finite_signatures: "finite (range (\<lambda>ts. generate_signature t ts m p b))"
proof -
  have "range (\<lambda>ts. generate_signature t ts m p b) \<subseteq> b64encode ` {bs. length bs = 32}"
    by (auto simp add: generate_signature_def length_hmac_sha256)
  moreover have "finite (b64encode ` {bs :: byte list. length bs = 32})"
    using finite_lists_length_eq [of "UNIV :: byte set" 32] by simp
  ultimately show ?thesis by (rule finite_subset)
qed

lemma signature_collision:
  "\<exists>x y. x \<noteq> y \<and> generate_signature t x m p b = generate_signature t y m p b"
proof -
  have "\<not> inj (\<lambda>ts. generate_signature t ts m p b)"
    using finite_imageD [OF finite_signatures [of t m p b]] infinite_UNIV_listI by blast
  then show ?thesis by (auto simp add: inj_on_def)
qed

section \<open>The daily query\<close>

text \<open>
  C9. \<open>get_daily_summary\<close> is a function of the tracker, the clock's date and the
  argument: it returns a record and nothing else, so it writes nothing and fetches
  nothing, and it has no error result. With no argument it returns the record stored
  for today, or the empty record when there is none; with a date, which is a non-empty
  string, it returns the record stored for that date, or the empty record when there is
  none.
\<close>

theorem get_daily_summary_lookup:
  "get_daily_summary t today None =
     (case map_of (daily_data t) today of None \<Rightarrow> [] | Some r \<Rightarrow> r) \<and>
   (d \<noteq> [] \<longrightarrow>
      get_daily_summary t today (Some d) =
        (case map_of (daily_data t) d of None \<Rightarrow> [] | Some r \<Rightarrow> r))"
  by (simp add: get_daily_summary_def dict_get_def)

theorem get_daily_summary_lookup_witness:
  "''2099-01-01'' \<noteq> [] \<and>
   get_daily_summary example_tracker ''2024-01-15'' (Some ''2099-01-01'') = []"
  using get_daily_summary_lookup [of example_tracker "''2024-01-15''" "''2099-01-01''"]
  by (simp add: example_tracker_def init_tracker_def)

section \<open>The daily pass\<close>

text \<open>The pass reads the keys and the base URL of the tracker, never its store.\<close>

lemma generate_signature_store [simp]:
  "generate_signature (t\<lparr>daily_data := s\<rparr>) = generate_signature t"
  by (simp add: generate_signature_def fun_eq_iff)

lemma make_okx_request_store [simp]:
  "make_okx_request (t\<lparr>daily_data := s\<rparr>) = make_okx_request t"
  by (simp add: make_okx_request_def fun_eq_iff)

lemma get_trading_history_store [simp]:
  "get_trading_history (t\<lparr>daily_data := s\<rparr>) = get_trading_history t"
  by (simp add: get_trading_history_def fun_eq_iff)

lemma bot_loop_store [simp]:
  "bot_loop (t\<lparr>daily_data := s\<rparr>) ws bots st = bot_loop t ws bots st"
  by (induction t ws bots st rule: bot_loop.induct)
     (simp_all split: sum.splits)

lemma fetch_failure_empty:
  "fst (make_okx_request t w ''GET'' ''/api/v5/trade/fills-history''
          (Some [(''instId'', inst), (''after'', after_ms w), (''before'', before_ms w)])) = None \<Longrightarrow>
   get_trading_history t w inst = Inr []"
  by (simp add: get_trading_history_def)

lemma bot_loop_empty_fetch:
  "bot_loop t ws bots (tot, bp) = Inr (tot', bp') \<Longrightarrow>
   \<forall>info. (n, info) \<in> set bots \<longrightarrow> get_trading_history t (ws n) (bot_info.symbol info) = Inr [] \<Longrightarrow>
   map_of bp' n = map_of bp n"
proof (induction bots arbitrary: tot bp)
  case Nil
  then show ?case by simp
next
  case (Cons b bots)
  obtain m info where b: "b = (m, info)" by (cases b)
  have rest: "\<forall>info. (n, info) \<in> set bots \<longrightarrow> get_trading_history t (ws n) (bot_info.symbol info) = Inr []"
    using Cons.prems(2) by simp
  show ?case
  proof (cases "m = n")
    case True
    with Cons.prems(2) b have "get_trading_history t (ws m) (bot_info.symbol info) = Inr []" by simp
    with Cons.prems(1) b have "bot_loop t ws bots (tot, bp) = Inr (tot', bp')" by simp
    then show ?thesis using Cons.IH rest by blast
  next
    case False
    from Cons.prems(1) b show ?thesis
      using Cons.IH rest False
      by (auto simp add: Let_def update_conv' split: sum.splits if_splits)
  qed
qed

lemma bot_loop_all_empty:
  "\<forall>(n, info) \<in> set bots. get_trading_history t (ws n) (bot_info.symbol info) = Inr [] \<Longrightarrow>
   bot_loop t ws bots st = Inr st"
  by (induction t ws bots st rule: bot_loop.induct) auto

lemma bot_loop_step:
  "get_trading_history t (ws m) (bot_info.symbol minfo) = Inr fs \<Longrightarrow> fs \<noteq> [] \<Longrightarrow>
   bot_loop t ws ((m, minfo) # bots) (tot, bp) =
     (case sum_pnl 0 fs of
        Inl e \<Rightarrow> Inl e
      | Inr p \<Rightarrow> bot_loop t ws bots (tot + p, AList.update m (stat_of minfo p (length fs)) bp))"
  by (simp add: Let_def stat_of_def split: sum.splits)

lemma calculate_daily_profit_Inr:
  "calculate_daily_profit t today ws = Inr (t', r) \<Longrightarrow>
   \<exists>tot. bot_loop t ws (trading_bots t) (0, []) = Inr (tot, r) \<and>
         t' = t\<lparr>daily_data := AList.update today r (daily_data t)\<rparr>"
  by (auto simp add: calculate_daily_profit_def split: sum.splits prod.splits)

lemma py_float_examples:
  "py_float ''10.5'' = Inr (21 / 2)" "py_float ''-2.0'' = Inr (- 2)"
  by (simp_all add: py_float_def plain_char_def digit_of_def Let_def)

lemma example_bots_ok: "dict_ok (trading_bots example_tracker)"
  by (simp add: example_tracker_def init_tracker_def dict_ok_def)

lemma scenario_a_run:
  "calculate_daily_profit example_tracker ''2024-01-15'' ws_scenario_a =
     Inr (example_tracker\<lparr>daily_data := [(''2024-01-15'', [(''Bot-DCA-BTC'', stat_a)])]\<rparr>,
          [(''Bot-DCA-BTC'', stat_a)])"
  by (simp add: calculate_daily_profit_def example_tracker_def init_tracker_def ws_scenario_a_def
      get_trading_history_replying get_trading_history_timeout fills_env_def fills_a_def
      trade_pnl_def py_float_examples stat_a_def)

text \<open>
  C4. When a pass returns, a configured bot whose request failed (the client returned
  \<open>None\<close>) or whose fetch gave the empty list has no key in the record produced, which
  is the record stored and returned by the daily query for that day.
\<close>

theorem empty_fetch_omits_bot:
  assumes "calculate_daily_profit t today ws = Inr (t', r)"
    and "dict_ok (trading_bots t)"
    and "(bot_name, info) \<in> set (trading_bots t)"
    and "fst (make_okx_request t (ws bot_name) ''GET'' ''/api/v5/trade/fills-history''
               (Some [(''instId'', bot_info.symbol info), (''after'', after_ms (ws bot_name)),
                      (''before'', before_ms (ws bot_name))])) = None \<or>
         get_trading_history t (ws bot_name) (bot_info.symbol info) = Inr []"
  shows "map_of (daily_data t') today = Some r \<and> map_of r bot_name = None \<and>
         bot_name \<notin> fst ` set (get_daily_summary t' today (Some today))"
proof -
  from calculate_daily_profit_Inr [OF assms(1)] obtain tot
    where loop: "bot_loop t ws (trading_bots t) (0, []) = Inr (tot, r)"
      and t': "t' = t\<lparr>daily_data := AList.update today r (daily_data t)\<rparr>"
    by blast
  have empty: "get_trading_history t (ws bot_name) (bot_info.symbol info) = Inr []"
    using assms(4) fetch_failure_empty by blast
  have uniq: "\<forall>i. (bot_name, i) \<in> set (trading_bots t) \<longrightarrow>
      get_trading_history t (ws bot_name) (bot_info.symbol i) = Inr []"
  proof (intro allI impI)
    fix i assume "(bot_name, i) \<in> set (trading_bots t)"
    with assms(2) assms(3) have "i = info"
      by (metis dict_ok_def map_of_is_SomeI option.inject)
    with empty show "get_trading_history t (ws bot_name) (bot_info.symbol i) = Inr []" by simp
  qed
  have none: "map_of r bot_name = None"
    using bot_loop_empty_fetch [OF loop uniq] by simp
  have stored: "map_of (daily_data t') today = Some r"
    by (simp add: t' update_conv')
  have "get_daily_summary t' today (Some today) = r"
    using stored by (simp add: get_daily_summary_def dict_get_def)
  with none stored show ?thesis by (simp add: map_of_eq_None_iff)
qed

theorem empty_fetch_omits_bot_witness:
  "calculate_daily_profit example_tracker ''2024-01-15'' ws_scenario_a =
     Inr (example_tracker\<lparr>daily_data := [(''2024-01-15'', [(''Bot-DCA-BTC'', stat_a)])]\<rparr>,
          [(''Bot-DCA-BTC'', stat_a)]) \<and>
   get_trading_history example_tracker (ws_scenario_a ''Bot-Grid-ETH'') ''ETH-USDT'' = Inr [] \<and>
   map_of [(''Bot-DCA-BTC'', stat_a)] ''Bot-Grid-ETH'' = None"
proof -
  have mem: "(''Bot-Grid-ETH'', \<lparr>bot_info.symbol = ''ETH-USDT'', strategy = ''Grid''\<rparr>)
      \<in> set (trading_bots example_tracker)"
    by (simp add: example_tracker_def init_tracker_def)
  have fetch: "get_trading_history example_tracker (ws_scenario_a ''Bot-Grid-ETH'')
      (bot_info.symbol \<lparr>bot_info.symbol = ''ETH-USDT'', strategy = ''Grid''\<rparr>) = Inr []"
    by (simp add: ws_scenario_a_def get_trading_history_timeout)
  show ?thesis
    using scenario_a_run fetch
      empty_fetch_omits_bot [OF scenario_a_run example_bots_ok mem disjI2 [OF fetch]]
    by simp
qed

text \<open>
  C5. When a pass returns a record, the store maps the date to exactly that record and
  every other date as before; and the record does not depend on the store the pass
  started from: from any prior store the same pass returns the same record and stores
  it under the date.
\<close>

theorem pass_replaces_record:
  assumes "calculate_daily_profit t today ws = Inr (t', r)"
  shows "map_of (daily_data t') today = Some r \<and>
         (\<forall>d. d \<noteq> today \<longrightarrow> map_of (daily_data t') d = map_of (daily_data t) d) \<and>
         (\<forall>prior. calculate_daily_profit (t\<lparr>daily_data := prior\<rparr>) today ws =
            Inr (t\<lparr>daily_data := AList.update today r prior\<rparr>, r))"
proof -
  from calculate_daily_profit_Inr [OF assms] obtain tot
    where loop: "bot_loop t ws (trading_bots t) (0, []) = Inr (tot, r)"
      and t': "t' = t\<lparr>daily_data := AList.update today r (daily_data t)\<rparr>"
    by blast
  have "map_of (daily_data t') today = Some r"
    by (simp add: t' update_conv')
  moreover have "\<forall>d. d \<noteq> today \<longrightarrow> map_of (daily_data t') d = map_of (daily_data t) d"
    by (simp add: t' update_conv')
  moreover have "\<forall>prior. calculate_daily_profit (t\<lparr>daily_data := prior\<rparr>) today ws =
      Inr (t\<lparr>daily_data := AList.update today r prior\<rparr>, r)"
    using loop by (simp add: calculate_daily_profit_def)
  ultimately show ?thesis by blast
qed

theorem pass_replaces_record_witness:
  "calculate_daily_profit tracker_prior ''2024-01-15'' ws_scenario_a =
     Inr (example_tracker\<lparr>daily_data := [(''2024-01-15'', [(''Bot-DCA-BTC'', stat_a)])]\<rparr>,
          [(''Bot-DCA-BTC'', stat_a)]) \<and>
   map_of (daily_data tracker_prior) ''2024-01-15'' = Some [(''Bot-DCA-BTC'', stat_prior)] \<and>
   profit_usdt stat_prior = 100 \<and> profit_usdt stat_a = 17 / 2"
  using pass_replaces_record [OF scenario_a_run]
  by (simp add: tracker_prior_def store_prior_def stat_prior_def stat_a_def)

text \<open>
  C3. When every configured bot's fetch gives the empty list, the pass returns the
  empty record and stores it under the date, replacing whatever was stored there; the
  other dates keep their records.
\<close>

theorem all_empty_pass_stores_empty:
  assumes "\<forall>(n, info) \<in> set (trading_bots t).
             get_trading_history t (ws n) (bot_info.symbol info) = Inr []"
  shows "calculate_daily_profit t today ws =
           Inr (t\<lparr>daily_data := AList.update today [] (daily_data t)\<rparr>, []) \<and>
         map_of (AList.update today [] (daily_data t)) today = Some [] \<and>
         (\<forall>d. d \<noteq> today \<longrightarrow> map_of (AList.update today [] (daily_data t)) d = map_of (daily_data t) d)"
  using bot_loop_all_empty [OF assms, of "(0, [])"]
  by (simp add: calculate_daily_profit_def update_conv')

theorem all_empty_pass_stores_empty_witness:
  "calculate_daily_profit tracker_prior ''2024-01-15'' ws_all_timeout =
     Inr (tracker_prior\<lparr>daily_data := [(''2024-01-15'', [])]\<rparr>, []) \<and>
   map_of (AList.update ''2024-01-15'' [] (daily_data tracker_prior)) ''2024-01-15'' = Some []"
proof -
  have h: "\<forall>(n, info) \<in> set (trading_bots tracker_prior).
      get_trading_history tracker_prior (ws_all_timeout n) (bot_info.symbol info) = Inr []"
    by (simp add: ws_all_timeout_def get_trading_history_timeout)
  show ?thesis
    using all_empty_pass_stores_empty [OF h, of "''2024-01-15''"]
    by (simp add: tracker_prior_def store_prior_def)
qed

text \<open>
  A pass in which every request times out, on a date that has a record with one entry:
  afterwards the date has the empty record.
\<close>

theorem all_empty_pass_keeps_record_counterexample:
  "calculate_daily_profit tracker_prior ''2024-01-15'' ws_all_timeout =
     Inr (tracker_prior\<lparr>daily_data := [(''2024-01-15'', [])]\<rparr>, []) \<and>
   map_of (daily_data tracker_prior) ''2024-01-15'' = Some [(''Bot-DCA-BTC'', stat_prior)] \<and>
   map_of (daily_data (tracker_prior\<lparr>daily_data := [(''2024-01-15'', [])]\<rparr>)) ''2024-01-15'' = Some []"
  by (simp add: calculate_daily_profit_def tracker_prior_def store_prior_def example_tracker_def
      init_tracker_def ws_all_timeout_def get_trading_history_timeout)

section \<open>The monthly roll-up\<close>

lemma set_update_subset: "set (AList.update k v al) \<subseteq> insert (k, v) (set al)"
  by (induction al) auto

lemma dict_ok_update: "dict_ok al \<Longrightarrow> dict_ok (AList.update k v al)"
  by (simp add: dict_ok_def distinct_update)

lemma add_day_aggregate:
  "Some (add_day (case aggregate_of qs of None \<Rightarrow> zero_aggregate | Some m \<Rightarrow> m) st) =
     aggregate_of (qs @ [st])"
  by (simp add: aggregate_of_def add_day_def zero_aggregate_def Let_def)

lemma record_loop_lookup:
  "dict_ok rec \<Longrightarrow>
   map_of (record_loop rec ms) b =
     (case map_of rec b of
        None \<Rightarrow> map_of ms b
      | Some st \<Rightarrow> Some (add_day (case map_of ms b of None \<Rightarrow> zero_aggregate | Some m \<Rightarrow> m) st))"
proof (induction rec arbitrary: ms)
  case Nil
  then show ?case by simp
next
  case (Cons e rec)
  obtain n st0 where e: "e = (n, st0)" by (cases e)
  from Cons.prems e have notin: "n \<notin> fst ` set rec" and ok: "dict_ok rec"
    by (auto simp add: dict_ok_def)
  define ms1 where "ms1 = (if map_of ms n = None then AList.update n zero_aggregate ms else ms)"
  define ms2 where "ms2 = AList.update n (add_day (dict_get ms1 n zero_aggregate) st0) ms1"
  have base: "dict_get ms1 n zero_aggregate = (case map_of ms n of None \<Rightarrow> zero_aggregate | Some m \<Rightarrow> m)"
    by (auto simp add: ms1_def dict_get_def update_conv' split: option.splits)
  have ms2: "map_of ms2 x =
      (if x = n then Some (add_day (case map_of ms n of None \<Rightarrow> zero_aggregate | Some m \<Rightarrow> m) st0)
       else map_of ms x)" for x
    unfolding ms2_def base by (simp add: update_conv' ms1_def)
  have step: "record_loop (e # rec) ms = record_loop rec ms2"
    by (simp add: e ms2_def ms1_def Let_def)
  have none: "map_of rec n = None"
    using notin by (simp add: map_of_eq_None_iff)
  show ?case
    unfolding step Cons.IH [OF ok]
    by (auto simp add: e ms2 none split: option.splits)
qed

lemma record_loop_ok: "dict_ok ms \<Longrightarrow> dict_ok (record_loop rec ms)"
  by (induction rec ms rule: record_loop.induct) (simp_all add: Let_def dict_ok_update)

lemma date_loop_ok: "dict_ok ms \<Longrightarrow> dict_ok (date_loop m store ms)"
  by (induction m store ms rule: date_loop.induct) (simp_all add: record_loop_ok)

lemma date_loop_lookup:
  "\<forall>(date, rec) \<in> set store. dict_ok rec \<Longrightarrow> map_of ms b = aggregate_of pre \<Longrightarrow>
   map_of (date_loop m store ms) b =
     aggregate_of (pre @ List.map_filter
        (\<lambda>(date, rec). if startswith date m then map_of rec b else None) store)"
proof (induction store arbitrary: ms pre)
  case Nil
  then show ?case by simp
next
  case (Cons e store)
  obtain d rec where e: "e = (d, rec)" by (cases e)
  from Cons.prems(1) e have ok: "dict_ok rec" and rest: "\<forall>(date, rec) \<in> set store. dict_ok rec"
    by auto
  show ?case
  proof (cases "startswith d m")
    case False
    then show ?thesis
      using Cons.IH [OF rest Cons.prems(2)] by (simp add: e)
  next
    case True
    show ?thesis
    proof (cases "map_of rec b")
      case None
      then have "map_of (record_loop rec ms) b = aggregate_of pre"
        using Cons.prems(2) by (simp add: record_loop_lookup [OF ok])
      from Cons.IH [OF rest this] show ?thesis
        using True None by (simp add: e)
    next
      case (Some st)
      then have "map_of (record_loop rec ms) b = aggregate_of (pre @ [st])"
        using Cons.prems(2) add_day_aggregate [of pre st] by (simp add: record_loop_lookup [OF ok])
      from Cons.IH [OF rest this] show ?thesis
        using True Some by (simp add: e)
    qed
  qed
qed

lemma monthly_lookup:
  "store_ok t \<Longrightarrow>
   map_of (get_monthly_summary t m) b = aggregate_of (month_stats t m b)"
  using date_loop_lookup [of "daily_data t" "[]" b "[]" m]
  by (simp add: store_ok_def get_monthly_summary_def month_stats_def aggregate_of_def)

lemma monthly_ok: "dict_ok (get_monthly_summary t m)"
  using date_loop_ok [of "[]" m "daily_data t"]
  by (simp add: get_monthly_summary_def dict_ok_def)

lemma set_map_filter_eq: "set (List.map_filter f xs) = {y. \<exists>x \<in> set xs. f x = Some y}"
  by (induction xs) (auto simp add: map_filter_simps split: option.splits)

lemma month_stats_set:
  "set (month_stats t m b) =
     {st. \<exists>date rec. (date, rec) \<in> set (daily_data t) \<and> startswith date m \<and> map_of rec b = Some st}"
proof (intro set_eqI iffI)
  fix st
  assume "st \<in> set (month_stats t m b)"
  then obtain e where e: "e \<in> set (daily_data t)"
    and f: "(case e of (date, rec) \<Rightarrow> if startswith date m then map_of rec b else None) = Some st"
    by (auto simp add: month_stats_def set_map_filter_eq)
  obtain date rec where "e = (date, rec)" by (cases e)
  with e f have "(date, rec) \<in> set (daily_data t) \<and> startswith date m \<and> map_of rec b = Some st"
    by (simp split: if_splits)
  then show "st \<in> {st. \<exists>date rec. (date, rec) \<in> set (daily_data t) \<and> startswith date m \<and>
      map_of rec b = Some st}"
    by blast
next
  fix st
  assume "st \<in> {st. \<exists>date rec. (date, rec) \<in> set (daily_data t) \<and> startswith date m \<and>
      map_of rec b = Some st}"
  then obtain date rec where e: "(date, rec) \<in> set (daily_data t)"
    and "startswith date m" "map_of rec b = Some st"
    by blast
  then have "(case (date, rec) of (date, rec) \<Rightarrow> if startswith date m then map_of rec b else None) = Some st"
    by simp
  with e show "st \<in> set (month_stats t m b)"
    unfolding month_stats_def set_map_filter_eq by blast
qed

text \<open>
  Every record a pass stores is a dictionary, and every entry in it counts at least
  one trade; this holds of every store built by passes from the empty store.
\<close>

lemma bot_loop_counts:
  "bot_loop t ws bots (tot, bp) = Inr (tot', bp') \<Longrightarrow> dict_ok bp \<Longrightarrow>
   \<forall>(n, st) \<in> set bp. 1 \<le> trades_count st \<Longrightarrow>
   dict_ok bp' \<and> (\<forall>(n, st) \<in> set bp'. 1 \<le> trades_count st)"
proof (induction bots arbitrary: tot bp)
  case Nil
  then show ?case by simp
next
  case (Cons b bots)
  obtain m minfo where b: "b = (m, minfo)" by (cases b)
  from Cons.prems(1) b obtain fs where fetch: "get_trading_history t (ws m) (bot_info.symbol minfo) = Inr fs"
    by (auto split: sum.splits)
  show ?case
  proof (cases "fs = []")
    case True
    with Cons.prems(1) b fetch have "bot_loop t ws bots (tot, bp) = Inr (tot', bp')" by simp
    from Cons.IH [OF this Cons.prems(2) Cons.prems(3)] show ?thesis .
  next
    case False
    from Cons.prems(1) b have "(case sum_pnl 0 fs of
        Inl e \<Rightarrow> Inl e
      | Inr p \<Rightarrow> bot_loop t ws bots (tot + p, AList.update m (stat_of minfo p (length fs)) bp))
      = Inr (tot', bp')"
      using bot_loop_step [of t ws m minfo fs bots tot bp] fetch False by simp
    then obtain p where
      loop: "bot_loop t ws bots (tot + p, AList.update m (stat_of minfo p (length fs)) bp) = Inr (tot', bp')"
      by (cases "sum_pnl 0 fs") auto
    have len: "1 \<le> trades_count (stat_of minfo p (length fs))"
      using False by (cases fs) (simp_all add: stat_of_def)
    have all: "\<forall>(n, st) \<in> set (AList.update m (stat_of minfo p (length fs)) bp). 1 \<le> trades_count st"
      using set_update_subset [of m "stat_of minfo p (length fs)" bp] Cons.prems(3) len by auto
    from Cons.IH [OF loop dict_ok_update [OF Cons.prems(2)] all] show ?thesis .
  qed
qed

lemma pass_invariant:
  assumes "calculate_daily_profit t today ws = Inr (t', r)" and "store_ok t" and "counts_ok t"
  shows "store_ok t' \<and> counts_ok t'"
proof -
  from calculate_daily_profit_Inr [OF assms(1)] obtain tot
    where loop: "bot_loop t ws (trading_bots t) (0, []) = Inr (tot, r)"
      and t': "t' = t\<lparr>daily_data := AList.update today r (daily_data t)\<rparr>"
    by blast
  have r: "dict_ok r \<and> (\<forall>(n, st) \<in> set r. 1 \<le> trades_count st)"
    using bot_loop_counts [OF loop] by (simp add: dict_ok_def)
  have sub: "set (daily_data t') \<subseteq> insert (today, r) (set (daily_data t))"
    by (simp add: t' set_update_subset)
  have "dict_ok (daily_data t')"
    using assms(2) by (simp add: t' store_ok_def dict_ok_update)
  moreover have "\<forall>(date, rec) \<in> set (daily_data t'). dict_ok rec"
    using sub r assms(2) by (auto simp add: store_ok_def)
  moreover have "counts_ok t'"
    using sub r assms(3) unfolding counts_ok_def by blast
  ultimately show ?thesis by (simp add: store_ok_def)
qed

lemma run_passes_invariant:
  "store_ok t \<Longrightarrow> counts_ok t \<Longrightarrow> store_ok (run_passes t passes) \<and> counts_ok (run_passes t passes)"
proof (induction passes arbitrary: t)
  case Nil
  then show ?case by simp
next
  case (Cons p passes)
  obtain today ws where p: "p = (today, ws)" by (cases p)
  show ?case
  proof (cases "calculate_daily_profit t today ws")
    case (Inl e)
    then show ?thesis using Cons by (simp add: p)
  next
    case (Inr res)
    obtain t' r where res: "res = (t', r)" by (cases res)
    from pass_invariant [OF Inr [unfolded res] Cons.prems] have "store_ok t' \<and> counts_ok t'" .
    then show ?thesis using Cons.IH [of t'] Inr res by (simp add: p)
  qed
qed

lemma sum_list_ge_length:
  "\<forall>x \<in> set xs. 1 \<le> f x \<Longrightarrow> int (length xs) \<le> sum_list (map f xs)"
  by (induction xs) auto

lemma month_stats_counts:
  assumes "counts_ok t" and "st \<in> set (month_stats t m b)"
  shows "1 \<le> trades_count st"
proof -
  from assms(2) obtain date rec where "(date, rec) \<in> set (daily_data t)" and "map_of rec b = Some st"
    unfolding month_stats_set by auto
  then have "(date, rec) \<in> set (daily_data t)" and "(b, st) \<in> set rec"
    by (auto dest: map_of_SomeD)
  with assms(1) show ?thesis unfolding counts_ok_def by blast
qed

text \<open>
  C10. In a store built by any sequence of daily passes from a tracker with the empty
  store, every entry of the monthly summary has
  \<open>total_trades \<ge> active_days \<ge> 1\<close>.
\<close>

theorem monthly_trades_cover_days:
  assumes "daily_data t0 = []"
    and "(bot_name, m) \<in> set (get_monthly_summary (run_passes t0 passes) current_month)"
  shows "active_days m \<le> total_trades m \<and> 1 \<le> active_days m"
proof -
  define t where "t = run_passes t0 passes"
  have inv: "store_ok t \<and> counts_ok t"
    unfolding t_def using assms(1)
    by (intro run_passes_invariant) (simp_all add: store_ok_def counts_ok_def dict_ok_def)
  have "map_of (get_monthly_summary t current_month) bot_name = Some m"
    using assms(2) monthly_ok [of t current_month]
    by (simp add: t_def dict_ok_def)
  then have agg: "aggregate_of (month_stats t current_month bot_name) = Some m"
    using monthly_lookup [of t current_month bot_name] inv by simp
  define qs where "qs = month_stats t current_month bot_name"
  from agg have ne: "qs \<noteq> []" and m: "total_trades m = sum_list (map trades_count qs)"
      "active_days m = int (length qs)"
    by (auto simp add: aggregate_of_def qs_def split: if_splits)
  have "\<forall>st \<in> set qs. 1 \<le> trades_count st"
    using month_stats_counts inv unfolding qs_def by blast
  from sum_list_ge_length [OF this] have "int (length qs) \<le> sum_list (map trades_count qs)" .
  moreover from ne have "1 \<le> int (length qs)" by (cases qs) simp_all
  ultimately show ?thesis by (simp add: m)
qed

theorem monthly_trades_cover_days_witness:
  "daily_data example_tracker = [] \<and>
   (''Bot-DCA-BTC'', aggregate_a) \<in>
     set (get_monthly_summary (run_passes example_tracker [(''2024-01-15'', ws_scenario_a)])
            ''2024-01'') \<and>
   active_days aggregate_a \<le> total_trades aggregate_a \<and> 1 \<le> active_days aggregate_a"
proof -
  have h: "daily_data example_tracker = []"
    by (simp add: example_tracker_def init_tracker_def)
  have run: "get_monthly_summary (run_passes example_tracker [(''2024-01-15'', ws_scenario_a)])
      ''2024-01'' = [(''Bot-DCA-BTC'', aggregate_a)]"
    by (simp add: scenario_a_run get_monthly_summary_def stat_a_def add_day_def
        zero_aggregate_def dict_get_def Let_def aggregate_a_def)
  have mem: "(''Bot-DCA-BTC'', aggregate_a) \<in>
      set (get_monthly_summary (run_passes example_tracker [(''2024-01-15'', ws_scenario_a)])
             ''2024-01'')"
    unfolding run by simp
  show ?thesis
    using h mem monthly_trades_cover_days [OF h mem] by simp
qed

end
